theory Spec2Isabelle
  imports Complex_Main "HOL-Library.Sublist" "HOL-Library.Multiset"
begin

section \<open>JavaScript values and built-ins used by the component\<close>

text \<open>
  The numbers of the component are JavaScript numbers. In the reading aggregator they are
  modelled as real numbers: sums and quotients are the exact ones, so the rounding error
  of IEEE doubles is outside that part of the model.

  A value read from a payload with optional chaining (\<^verbatim>\<open>s.iaqi.pm25?.v\<close>) is either
  \<^verbatim>\<open>undefined\<close> or a number.
\<close>

datatype jsval = Undefined | Num (num_val: real)

text \<open>
  The distance calculator works in binary floating point, where a result can be
  \<^verbatim>\<open>NaN\<close>. A number of that part of the model is \<open>NaN\<close> or a real number (a
  finite double). Infinities are not modelled: with arguments of the size of coordinates
  no operation of the distance calculator overflows.
\<close>

datatype jsnum = NaN | Fin (fin_val: real)

text \<open>Errors are values: a failed request carries the optional text of
  \<^verbatim>\<open>err.response?.data?.message\<close>; a \<^verbatim>\<open>TypeError\<close> and a \<^verbatim>\<open>URIError\<close> carry
  no response.\<close>

datatype js_error = RequestFailed "string option" | TypeError | URIError

text \<open>\<^verbatim>\<open>Math.round(x)\<close> is the integer \<open>\<lfloor>x + 1/2\<rfloor>\<close>: ties go towards \<open>+\<infinity>\<close>.\<close>

definition Math_round :: "real \<Rightarrow> real" where
  "Math_round x = real_of_int \<lfloor>x + 1 / 2\<rfloor>"

section \<open>Payloads\<close>

datatype pollutant = PM25 | PM10 | O3 | NO2 | SO2 | CO

text \<open>One entry of \<^verbatim>\<open>forecast.daily[key]\<close>.\<close>

record forecast_day =
  day :: string
  avg :: real

text \<open>\<^verbatim>\<open>forecast.daily\<close> is an object; the order of its keys is what
  \<^verbatim>\<open>Object.keys\<close> returns, so it is an association list with distinct keys.\<close>

type_synonym daily = "(string \<times> forecast_day list) list"

record forecast =
  daily :: "daily option"

text \<open>The \<^verbatim>\<open>data\<close> object of a feed response. \<open>iaqi s p = Some x\<close> says that
  \<^verbatim>\<open>s.iaqi\<close> has an entry for \<open>p\<close> whose \<^verbatim>\<open>v\<close> is \<open>x\<close>.\<close>

record feed =
  aqi :: real
  iaqi :: "pollutant \<Rightarrow> real option"
  time_iso :: string
  city_name :: string
  forecast :: "forecast option"

text \<open>A station of the bounds response, and the same with its \<^verbatim>\<open>distance\<close> attached.\<close>

record station =
  uid :: nat
  lat :: real
  lon :: real

record ranked_station = station +
  distance :: jsnum

section \<open>Reading aggregator\<close>

record pollutants =
  pm25 :: "real option"
  pm10 :: "real option"
  o3 :: "real option"
  no2 :: "real option"
  so2 :: "real option"
  co :: "real option"

record station_entry =
  name :: string
  entry_aqi :: real
  entry_distance :: jsnum

text \<open>The object \<^verbatim>\<open>processStationData\<close> returns; \<open>None\<close> is \<^verbatim>\<open>null\<close>.\<close>

record composite =
  composite_aqi :: "real option"
  composite_pollutants :: pollutants
  composite_time :: string
  composite_stations :: "station_entry list"

text \<open>\<^verbatim>\<open>x?.v\<close> on an entry that may be missing.\<close>

fun chain_v :: "real option \<Rightarrow> jsval" where
  "chain_v None = Undefined"
| "chain_v (Some x) = Num x"

text \<open>
  \<^verbatim>\<open>
  const weightedAverage = (values) => {
    const validValues = values.filter(v => v !== undefined);
    if (validValues.length === 0) return null;
    return Math.round(validValues.reduce((a, b) => a + b, 0) / validValues.length);
  };
  \<close>
  Every element of \<open>validValues\<close> is a number, so \<open>num_val\<close> is only applied to
  numbers.
\<close>

definition validValues :: "jsval list \<Rightarrow> jsval list" where
  "validValues values = filter (\<lambda>v. v \<noteq> Undefined) values"

definition weightedAverage :: "jsval list \<Rightarrow> real option" where
  "weightedAverage values =
     (if length (validValues values) = 0 then None
      else Some (Math_round (foldl (\<lambda>a b. a + num_val b) 0 (validValues values)
                              / real (length (validValues values)))))"

text \<open>
  \<^verbatim>\<open>stations[0].time.iso\<close> throws a TypeError on an empty list, and so does
  \<^verbatim>\<open>originalStations[index].distance\<close> when \<open>originalStations\<close> is the shorter list.
\<close>

definition processStationData :: "feed list \<Rightarrow> ranked_station list \<Rightarrow> js_error + composite" where
  "processStationData stations originalStations =
     (if stations = [] \<or> length originalStations < length stations then Inl TypeError
      else Inr \<lparr>
        composite_aqi = weightedAverage (map (\<lambda>s. Num (aqi s)) stations),
        composite_pollutants = \<lparr>
          pm25 = weightedAverage (map (\<lambda>s. chain_v (iaqi s PM25)) stations),
          pm10 = weightedAverage (map (\<lambda>s. chain_v (iaqi s PM10)) stations),
          o3 = weightedAverage (map (\<lambda>s. chain_v (iaqi s O3)) stations),
          no2 = weightedAverage (map (\<lambda>s. chain_v (iaqi s NO2)) stations),
          so2 = weightedAverage (map (\<lambda>s. chain_v (iaqi s SO2)) stations),
          co = weightedAverage (map (\<lambda>s. chain_v (iaqi s CO)) stations) \<rparr>,
        composite_time = time_iso (hd stations),
        composite_stations = map (\<lambda>(index, s).
            \<lparr> name = city_name s, entry_aqi = aqi s,
              entry_distance = distance (originalStations ! index) \<rparr>)
          (enumerate 0 stations) \<rparr>)"

text \<open>Reading one pollutant code of the aggregated object.\<close>

fun pollutant_value :: "pollutants \<Rightarrow> pollutant \<Rightarrow> real option" where
  "pollutant_value ps PM25 = pm25 ps"
| "pollutant_value ps PM10 = pm10 ps"
| "pollutant_value ps O3 = o3 ps"
| "pollutant_value ps NO2 = no2 ps"
| "pollutant_value ps SO2 = so2 ps"
| "pollutant_value ps CO = co ps"

text \<open>The words of the specification: the values of the stations that report a pollutant,
  and the arithmetic mean of a list of numbers.\<close>

definition reported :: "feed list \<Rightarrow> pollutant \<Rightarrow> real list" where
  "reported stations p = List.map_filter (\<lambda>s. iaqi s p) stations"

definition arithmetic_mean :: "real list \<Rightarrow> real" where
  "arithmetic_mean xs = sum_list xs / real (length xs)"

section \<open>Distance calculator\<close>

text \<open>
  The arithmetic of the runtime is a parameter of the model. \<open>rnd\<close> rounds the exact
  result of \<^verbatim>\<open>+\<close>, \<^verbatim>\<open>-\<close>, \<^verbatim>\<open>*\<close>, \<^verbatim>\<open>/\<close> and \<^verbatim>\<open>Math.sqrt\<close> to a double;
  \<^verbatim>\<open>Math.PI\<close>, \<^verbatim>\<open>Math.sin\<close>, \<^verbatim>\<open>Math.cos\<close> and \<^verbatim>\<open>Math.atan2\<close> are those of the
  library.
\<close>

record arith =
  rnd :: "real \<Rightarrow> real"
  Math_PI :: real
  Math_sin :: "real \<Rightarrow> real"
  Math_cos :: "real \<Rightarrow> real"
  Math_atan2 :: "real \<Rightarrow> real \<Rightarrow> real"

text \<open>The operations on numbers: \<open>NaN\<close> in an argument gives \<open>NaN\<close>, and
  \<^verbatim>\<open>Math.sqrt\<close> of a negative number is \<open>NaN\<close>. The divisors of the source are the
  literals 180 and 2; a zero divisor does not occur, and is \<open>NaN\<close> here.\<close>

fun js_add :: "arith \<Rightarrow> jsnum \<Rightarrow> jsnum \<Rightarrow> jsnum" where
  "js_add fp (Fin x) (Fin y) = Fin (rnd fp (x + y))"
| "js_add fp _ _ = NaN"

fun js_sub :: "arith \<Rightarrow> jsnum \<Rightarrow> jsnum \<Rightarrow> jsnum" where
  "js_sub fp (Fin x) (Fin y) = Fin (rnd fp (x - y))"
| "js_sub fp _ _ = NaN"

fun js_mul :: "arith \<Rightarrow> jsnum \<Rightarrow> jsnum \<Rightarrow> jsnum" where
  "js_mul fp (Fin x) (Fin y) = Fin (rnd fp (x * y))"
| "js_mul fp _ _ = NaN"

fun js_div :: "arith \<Rightarrow> jsnum \<Rightarrow> jsnum \<Rightarrow> jsnum" where
  "js_div fp (Fin x) (Fin y) = (if y = 0 then NaN else Fin (rnd fp (x / y)))"
| "js_div fp _ _ = NaN"

fun js_sqrt :: "arith \<Rightarrow> jsnum \<Rightarrow> jsnum" where
  "js_sqrt fp (Fin x) = (if x < 0 then NaN else Fin (rnd fp (sqrt x)))"
| "js_sqrt fp NaN = NaN"

fun js_sin :: "arith \<Rightarrow> jsnum \<Rightarrow> jsnum" where
  "js_sin fp (Fin x) = Fin (Math_sin fp x)"
| "js_sin fp NaN = NaN"

fun js_cos :: "arith \<Rightarrow> jsnum \<Rightarrow> jsnum" where
  "js_cos fp (Fin x) = Fin (Math_cos fp x)"
| "js_cos fp NaN = NaN"

fun js_atan2 :: "arith \<Rightarrow> jsnum \<Rightarrow> jsnum \<Rightarrow> jsnum" where
  "js_atan2 fp (Fin y) (Fin x) = Fin (Math_atan2 fp y x)"
| "js_atan2 fp _ _ = NaN"



text \<open>
  \<^verbatim>\<open>
  const calculateDistance = (lat1, lon1, lat2, lon2) => {
    const R = 6371;
    const dLat = (lat2 - lat1) * Math.PI / 180;
    const dLon = (lon2 - lon1) * Math.PI / 180;
    const a =
      Math.sin(dLat/2) * Math.sin(dLat/2) +
      Math.cos(lat1 * Math.PI / 180) * Math.cos(lat2 * Math.PI / 180) *
      Math.sin(dLon/2) * Math.sin(dLon/2);
    const c = 2 * Math.atan2(Math.sqrt(a), Math.sqrt(1-a));
    return R * c;
  };
  \<close>
\<close>

text \<open>The value of the constant \<^verbatim>\<open>a\<close>. The operators associate as in JavaScript:
  \<^verbatim>\<open>x * y / z\<close> is \<^verbatim>\<open>(x * y) / z\<close>, and the second summand is
  \<^verbatim>\<open>((cos * cos) * sin) * sin\<close>.\<close>

definition haversine_a :: "arith \<Rightarrow> real \<Rightarrow> real \<Rightarrow> real \<Rightarrow> real \<Rightarrow> jsnum" where
  "haversine_a fp lat1 lon1 lat2 lon2 =
     (let dLat = js_div fp (js_mul fp (js_sub fp (Fin lat2) (Fin lat1)) (Fin (Math_PI fp)))
                   (Fin 180);
          dLon = js_div fp (js_mul fp (js_sub fp (Fin lon2) (Fin lon1)) (Fin (Math_PI fp)))
                   (Fin 180)
      in js_add fp
           (js_mul fp (js_sin fp (js_div fp dLat (Fin 2))) (js_sin fp (js_div fp dLat (Fin 2))))
           (js_mul fp
             (js_mul fp
               (js_mul fp
                 (js_cos fp (js_div fp (js_mul fp (Fin lat1) (Fin (Math_PI fp))) (Fin 180)))
                 (js_cos fp (js_div fp (js_mul fp (Fin lat2) (Fin (Math_PI fp))) (Fin 180))))
               (js_sin fp (js_div fp dLon (Fin 2))))
             (js_sin fp (js_div fp dLon (Fin 2)))))"

definition calculateDistance :: "arith \<Rightarrow> real \<Rightarrow> real \<Rightarrow> real \<Rightarrow> real \<Rightarrow> jsnum" where
  "calculateDistance fp lat1 lon1 lat2 lon2 =
     (let R = Fin 6371;
          a = haversine_a fp lat1 lon1 lat2 lon2;
          c = js_mul fp (Fin 2) (js_atan2 fp (js_sqrt fp a) (js_sqrt fp (js_sub fp (Fin 1) a)))
      in js_mul fp R c)"

text \<open>
  Two arithmetics. The first is exact: no rounding, and the mathematical \<open>\<pi>\<close>, sine,
  cosine and angle of a point (in \<open>(-\<pi>, \<pi>]\<close>, and \<open>0\<close> at the origin). The second
  differs from it in the sine and the cosine, which it rounds to the nearest number with
  seven decimal places, as a library of that precision would.
\<close>

definition exact_atan2 :: "real \<Rightarrow> real \<Rightarrow> real" where
  "exact_atan2 y x =
     (if 0 < x then arctan (y / x)
      else if x < 0 \<and> 0 \<le> y then arctan (y / x) + pi
      else if x < 0 then arctan (y / x) - pi
      else if 0 < y then pi / 2
      else if y < 0 then - (pi / 2)
      else 0)"

definition exact :: arith where
  "exact = \<lparr> rnd = (\<lambda>x. x), Math_PI = pi, Math_sin = sin, Math_cos = cos,
             Math_atan2 = exact_atan2 \<rparr>"



section \<open>Station selection and the fetch of a composite reading\<close>

text \<open>\<^verbatim>\<open>location.value\<close>: the coordinate chosen in the search box.\<close>

record coordinate =
  value_lat :: real
  lng :: real

text \<open>\<^verbatim>\<open>{...station, distance: calculateDistance(...)}\<close>\<close>

definition attach_distance :: "arith \<Rightarrow> coordinate \<Rightarrow> station \<Rightarrow> ranked_station" where
  "attach_distance fp location s =
     \<lparr> uid = uid s, lat = lat s, lon = lon s,
       distance = calculateDistance fp (value_lat location) (lng location) (lat s) (lon s) \<rparr>"

text \<open>
  \<^verbatim>\<open>Array.prototype.sort(comparefn)\<close>. The sort reads the sign of the number that the
  comparator returns, and takes \<open>NaN\<close> for \<open>0\<close>. It is stable (ECMAScript 2019), so for a
  comparator that orders the elements consistently its result is the one of the stable
  insertion sort below: an element moves behind the elements that compare smaller, and
  stays before the ones that compare equal. For a comparator that is not consistent the
  standard leaves the order to the implementation; the model has the order of the
  insertion sort there as well.
\<close>

fun positive :: "jsnum \<Rightarrow> bool" where
  "positive (Fin v) = (0 < v)"
| "positive NaN = False"

fun insert_sorted :: "('a \<Rightarrow> 'a \<Rightarrow> jsnum) \<Rightarrow> 'a \<Rightarrow> 'a list \<Rightarrow> 'a list" where
  "insert_sorted comparefn x [] = [x]"
| "insert_sorted comparefn x (y # ys) =
     (if positive (comparefn x y) then y # insert_sorted comparefn x ys else x # y # ys)"

definition Array_sort :: "('a \<Rightarrow> 'a \<Rightarrow> jsnum) \<Rightarrow> 'a list \<Rightarrow> 'a list" where
  "Array_sort comparefn xs = foldr (insert_sorted comparefn) xs []"

text \<open>\<^verbatim>\<open>.map(...).sort((a, b) => a.distance - b.distance).slice(0, 3)\<close>\<close>

definition nearestStations :: "arith \<Rightarrow> coordinate \<Rightarrow> station list \<Rightarrow> ranked_station list" where
  "nearestStations fp location data =
     take 3 (Array_sort (\<lambda>a b. js_sub fp (distance a) (distance b))
               (map (attach_distance fp location) data))"

text \<open>The number of a distance that is not \<open>NaN\<close>.\<close>

definition distance_value :: "ranked_station \<Rightarrow> real" where
  "distance_value s = fin_val (distance s)"

text \<open>
  The network as the component sees it: each request either throws or gives the
  \<^verbatim>\<open>data.data\<close> of its response. The forecast request of \<^verbatim>\<open>fetchHistoricalData\<close>
  is a later request to the feed address, with an outcome of its own.
\<close>

record network =
  bounds :: "coordinate \<Rightarrow> js_error + station list option"
  feed_of :: "nat \<Rightarrow> js_error + feed"
  historical_of :: "nat \<Rightarrow> js_error + feed"

text \<open>\<^verbatim>\<open>Promise.all\<close>: all the values when every request succeeds, a rejection as soon
  as one fails. With several failures the model reports the first in list order; the
  runtime reports the first in time.\<close>

fun Promise_all :: "('e + 'a) list \<Rightarrow> 'e + 'a list" where
  "Promise_all [] = Inr []"
| "Promise_all (Inl e # rs) = Inl e"
| "Promise_all (Inr x # rs) = (case Promise_all rs of Inl e \<Rightarrow> Inl e | Inr xs \<Rightarrow> Inr (x # xs))"

text \<open>The state of the component that \<^verbatim>\<open>fetchAQI\<close> writes.\<close>

record app_state =
  aqi_state :: "composite option"
  loading :: bool
  error :: "string option"
  historicalData :: "feed option"

text \<open>\<^verbatim>\<open>err.response?.data?.message || 'Failed to fetch AQI data. Please try again later.'\<close>\<close>

definition error_message :: "js_error \<Rightarrow> string" where
  "error_message err =
     (case err of
        RequestFailed (Some m) \<Rightarrow>
          if m = [] then ''Failed to fetch AQI data. Please try again later.'' else m
      | _ \<Rightarrow> ''Failed to fetch AQI data. Please try again later.'')"

text \<open>
  \<^verbatim>\<open>fetchAQI\<close> (lines 88 to 147). The three places that can throw inside the outer
  \<^verbatim>\<open>try\<close> (the bounds request, \<^verbatim>\<open>Promise.all\<close>, \<^verbatim>\<open>processStationData\<close>) come
  before any state is written there; the inner \<^verbatim>\<open>try\<close> swallows a failure of the
  forecast request; \<^verbatim>\<open>finally\<close> clears \<open>loading\<close>.
\<close>

definition fetchAQI :: "arith \<Rightarrow> network \<Rightarrow> coordinate \<Rightarrow> app_state \<Rightarrow> app_state" where
  "fetchAQI fp net location st0 =
     (let st1 = st0\<lparr>loading := True, error := None\<rparr>;
          st2 =
            (case bounds net location of
               Inl err \<Rightarrow> st1\<lparr>error := Some (error_message err)\<rparr>
             | Inr None \<Rightarrow> st1\<lparr>error := Some ''No AQI stations found near this location''\<rparr>
             | Inr (Some data) \<Rightarrow>
                 if length data = 0
                 then st1\<lparr>error := Some ''No AQI stations found near this location''\<rparr>
                 else
                   let stations = nearestStations fp location data in
                   (case Promise_all (map (\<lambda>s. feed_of net (uid s)) stations) of
                      Inl err \<Rightarrow> st1\<lparr>error := Some (error_message err)\<rparr>
                    | Inr stationDetails \<Rightarrow>
                       (case processStationData stationDetails stations of
                          Inl err \<Rightarrow> st1\<lparr>error := Some (error_message err)\<rparr>
                        | Inr aggregatedData \<Rightarrow>
                            let st3 = st1\<lparr>aqi_state := Some aggregatedData\<rparr> in
                            (case stations of
                               [] \<Rightarrow> st3
                             | s0 # _ \<Rightarrow>
                                (case historical_of net (uid s0) of
                                   Inl err \<Rightarrow> st3
                                 | Inr historicalResponse \<Rightarrow>
                                     st3\<lparr>historicalData := Some historicalResponse\<rparr>)))))
      in st2\<lparr>loading := False\<rparr>)"

section \<open>Geocoder\<close>

record geo_item =
  item_lat :: string
  item_lon :: string
  display_name :: string

text \<open>An entry of the select box; an entry without \<^verbatim>\<open>isDisabled\<close> is selectable.\<close>

record select_option =
  option_label :: string
  option_value :: "coordinate option"
  isDisabled :: bool

text \<open>\<^verbatim>\<open>response.data\<close> of the search request: a falsy value, an array of items, or
  anything else (an unparsed body, an object).\<close>

datatype geo_data = Falsy | Items "geo_item list" | NotAnArray

text \<open>
  \<^verbatim>\<open>loadOptions\<close> (lines 46 to 77). \<open>loadOptions_body\<close> is the body of the
  \<^verbatim>\<open>try\<close> block. It first builds the address of the request, where
  \<^verbatim>\<open>encodeURIComponent\<close> throws a URIError on a query that is not well-formed (\<open>None\<close>),
  before any request is sent. The request then either throws or gives
  \<^verbatim>\<open>response.data\<close>, and \<^verbatim>\<open>response.data.map\<close> throws a TypeError on a value that
  is not an array. \<open>loadOptions\<close> adds the guard before the \<^verbatim>\<open>try\<close> block and the
  \<^verbatim>\<open>catch\<close> block after it. A result is paired with the addresses that were
  requested, in order. \<^verbatim>\<open>parseFloat\<close> and \<^verbatim>\<open>encodeURIComponent\<close> are parameters.

  The only strings that \<^verbatim>\<open>!inputValue\<close> accepts are the empty ones.
\<close>

definition search_url :: "string \<Rightarrow> string" where
  "search_url q = ''https://nominatim.openstreetmap.org/search?format=json&q='' @ q"

definition loadOptions_body ::
  "(string \<Rightarrow> real) \<Rightarrow> (string \<Rightarrow> string option) \<Rightarrow> (string \<Rightarrow> js_error + geo_data)
    \<Rightarrow> string \<Rightarrow> (js_error + select_option list) \<times> string list" where
  "loadOptions_body parseFloat encodeURIComponent axios_get inputValue =
     (case encodeURIComponent inputValue of
        None \<Rightarrow> (Inl URIError, [])
      | Some q \<Rightarrow>
         (case axios_get (search_url q) of
            Inl err \<Rightarrow> Inl err
          | Inr Falsy \<Rightarrow>
              Inr [\<lparr> option_label = ''No locations found'', option_value = None,
                     isDisabled = True \<rparr>]
          | Inr NotAnArray \<Rightarrow> Inl TypeError
          | Inr (Items items) \<Rightarrow>
              if length items = 0
              then Inr [\<lparr> option_label = ''No locations found'', option_value = None,
                         isDisabled = True \<rparr>]
              else Inr (take 5 (map (\<lambda>item.
                     \<lparr> option_label = display_name item,
                       option_value = Some \<lparr> value_lat = parseFloat (item_lat item),
                                             lng = parseFloat (item_lon item) \<rparr>,
                       isDisabled = False \<rparr>) items)),
          [search_url q]))"

definition loadOptions ::
  "(string \<Rightarrow> real) \<Rightarrow> (string \<Rightarrow> string option) \<Rightarrow> (string \<Rightarrow> js_error + geo_data)
    \<Rightarrow> string \<Rightarrow> (js_error + select_option list) \<times> string list" where
  "loadOptions parseFloat encodeURIComponent axios_get inputValue =
     (if inputValue = [] then (Inr [], [])
      else
        (case loadOptions_body parseFloat encodeURIComponent axios_get inputValue of
           (Inl err, requests) \<Rightarrow>
             (Inr [\<lparr> option_label = ''Error loading locations'', option_value = None,
                     isDisabled = True \<rparr>], requests)
         | (Inr options, requests) \<Rightarrow> (Inr options, requests)))"

section \<open>Forecast formatter\<close>

record dataset =
  label :: string
  data :: "real list"
  borderColor :: string
  backgroundColor :: string
  tension :: real

record chart_data =
  labels :: "string list"
  datasets :: "dataset list"

text \<open>One \<^verbatim>\<open>if (data.forecast.daily.KEY?.length > 0) datasets.push({...})\<close> block: the
  datasets it pushes.\<close>

definition push_dataset :: "daily \<Rightarrow> string \<Rightarrow> string \<Rightarrow> string \<Rightarrow> string \<Rightarrow> dataset list" where
  "push_dataset d key lbl border background =
     (case map_of d key of
        None \<Rightarrow> []
      | Some xs \<Rightarrow>
          if length xs > 0
          then [\<lparr> label = lbl, data = map avg xs, borderColor = border,
                   backgroundColor = background, tension = 1 / 10 \<rparr>]
          else [])"

text \<open>
  \<^verbatim>\<open>prepareChartData\<close> (lines 216 to 266); \<open>None\<close> is \<^verbatim>\<open>null\<close>. The date format
  \<^verbatim>\<open>new Date(d.day).toLocaleDateString([], {month: 'short', day: 'numeric'})\<close> is the
  parameter \<open>toLocaleDateString\<close>. The source's comment on the labels reads
  ``Use dates from the first available dataset''; the code reads
  \<^verbatim>\<open>data.forecast.daily[Object.keys(data.forecast.daily)[0]]\<close>.
\<close>

definition prepareChartData ::
  "(string \<Rightarrow> string) \<Rightarrow> feed option \<Rightarrow> js_error + chart_data option" where
  "prepareChartData toLocaleDateString dt =
     (case dt of
        None \<Rightarrow> Inr None
      | Some payload \<Rightarrow>
         (case forecast payload of
            None \<Rightarrow> Inr None
          | Some f \<Rightarrow>
             (case daily f of
                None \<Rightarrow> Inr None
              | Some d \<Rightarrow>
                 let dsets =
                       push_dataset d ''pm25'' ''PM2.5'' ''rgb(75, 192, 192)''
                         ''rgba(75, 192, 192, 0.2)''
                       @ push_dataset d ''pm10'' ''PM10'' ''rgb(255, 99, 132)''
                         ''rgba(255, 99, 132, 0.2)''
                       @ push_dataset d ''o3'' ''O3'' ''rgb(53, 162, 235)''
                         ''rgba(53, 162, 235, 0.2)''
                 in
                 if length dsets = 0 then Inr None
                 else
                   (case d of
                      [] \<Rightarrow> Inl TypeError
                    | (key0, _) # _ \<Rightarrow>
                       (case map_of d key0 of
                          None \<Rightarrow> Inl TypeError
                        | Some xs \<Rightarrow>
                            Inr (Some \<lparr> labels = map (\<lambda>e. toLocaleDateString (day e)) xs,
                                         datasets = dsets \<rparr>))))))"

text \<open>The words of the specification: the recognised pollutants in the order the
  formatter enumerates them, and the first of them that has data.\<close>

definition recognized :: "string list" where
  "recognized = [''pm25'', ''pm10'', ''o3'']"

definition has_data :: "daily \<Rightarrow> string \<Rightarrow> bool" where
  "has_data d key = (case map_of d key of None \<Rightarrow> False | Some xs \<Rightarrow> xs \<noteq> [])"

definition first_with_data :: "daily \<Rightarrow> string option" where
  "first_with_data d = find (has_data d) recognized"

text \<open>The same with the order of the keys of the payload as the enumeration order.\<close>

definition first_key_with_data :: "daily \<Rightarrow> string option" where
  "first_key_with_data d = find (\<lambda>k. k \<in> set recognized \<and> has_data d k) (map fst d)"

section \<open>Example inputs\<close>

definition example_feed :: "real \<Rightarrow> real option \<Rightarrow> feed" where
  "example_feed a p25 =
     \<lparr> aqi = a, iaqi = (\<lambda>p. if p = PM25 then p25 else None),
       time_iso = ''2024-01-01T00:00:00Z'', city_name = ''Station'', forecast = None \<rparr>"

definition example_ranked :: "nat \<Rightarrow> real \<Rightarrow> ranked_station" where
  "example_ranked u d = \<lparr> uid = u, lat = 0, lon = 0, distance = Fin d \<rparr>"

definition example_station :: "nat \<Rightarrow> real \<Rightarrow> real \<Rightarrow> station" where
  "example_station u la lo = \<lparr> uid = u, lat = la, lon = lo \<rparr>"

definition origin :: coordinate where
  "origin = \<lparr> value_lat = 0, lng = 0 \<rparr>"


definition example_state :: app_state where
  "example_state =
     \<lparr> aqi_state = Some \<lparr> composite_aqi = Some 42,
                          composite_pollutants =
                            \<lparr> pm25 = Some 7, pm10 = None, o3 = None, no2 = None,
                              so2 = None, co = None \<rparr>,
                          composite_time = ''2023-12-31T00:00:00Z'',
                          composite_stations = [] \<rparr>,
       loading = False, error = None, historicalData = None \<rparr>"

text \<open>Two networks. In the first, two stations are in range: the feed request of station
  7 fails and the one of station 8 succeeds. In the second, one station is in range and
  its feed request succeeds.\<close>

definition failing_network :: network where
  "failing_network =
     \<lparr> bounds = (\<lambda>location. Inr (Some [example_station 8 0 0, example_station 7 0 0])),
       feed_of = (\<lambda>u. if u = 7 then Inl (RequestFailed (Some ''Over quota''))
                       else Inr (example_feed 50 (Some 12))),
       historical_of = (\<lambda>u. Inr (example_feed 50 None)) \<rparr>"

definition working_network :: network where
  "working_network =
     \<lparr> bounds = (\<lambda>location. Inr (Some [example_station 7 0 0])),
       feed_of = (\<lambda>u. Inr (example_feed 50 (Some 12))),
       historical_of = (\<lambda>u. Inl (RequestFailed None)) \<rparr>"

text \<open>A forecast whose first key is not a recognised pollutant.\<close>

definition example_daily :: daily where
  "example_daily =
     [(''uvi'', [\<lparr> day = ''2024-01-01'', avg = 3 \<rparr>]),
      (''pm25'', [\<lparr> day = ''2024-01-02'', avg = 10 \<rparr>])]"

definition example_forecast_feed :: feed where
  "example_forecast_feed =
     \<lparr> aqi = 50, iaqi = (\<lambda>p. None), time_iso = ''2024-01-01T00:00:00Z'',
       city_name = ''Station'', forecast = Some \<lparr> daily = Some example_daily \<rparr> \<rparr>"

text \<open>A forecast whose first key is a recognised pollutant without data.\<close>

definition example_daily_empty_first :: daily where
  "example_daily_empty_first =
     [(''o3'', []),
      (''pm25'', [\<lparr> day = ''2024-01-02'', avg = 10 \<rparr>])]"

definition example_geo_item :: geo_item where
  "example_geo_item = \<lparr> item_lat = ''18.52'', item_lon = ''73.85'', display_name = ''Pune'' \<rparr>"

section \<open>Properties of the reading aggregator\<close>

lemma Math_round_round: "Math_round x = real_of_int (round x)"
  by (simp add: Math_round_def round_def)

lemma validValues_chain_v:
  "validValues (map (\<lambda>s. chain_v (f s)) xs) = map Num (List.map_filter f xs)"
proof (induction xs)
  case Nil
  show ?case by (simp add: validValues_def map_filter_simps)
next
  case (Cons x xs)
  then show ?case
    by (cases "f x") (simp_all add: validValues_def map_filter_simps)
qed

lemma reduce_Num: "foldl (\<lambda>a b. a + num_val b) acc (map Num ys) = acc + sum_list ys"
  by (induction ys arbitrary: acc) simp_all

lemma weightedAverage_chain_v:
  "weightedAverage (map (\<lambda>s. chain_v (f s)) xs) =
     (if List.map_filter f xs = [] then None
      else Some (real_of_int (round (arithmetic_mean (List.map_filter f xs)))))"
  by (simp add: weightedAverage_def validValues_chain_v reduce_Num Math_round_round
      arithmetic_mean_def)

lemma map_filter_Some: "List.map_filter (\<lambda>s. Some (f s)) xs = map f xs"
  by (induction xs) (simp_all add: map_filter_simps)

lemma weightedAverage_Num:
  "weightedAverage (map (\<lambda>s. Num (f s)) xs) =
     (if xs = [] then None
      else Some (real_of_int (round (arithmetic_mean (map f xs)))))"
  using weightedAverage_chain_v [of "\<lambda>s. Some (f s)" xs]
  by (simp add: map_filter_Some)

lemma weightedAverage_integer: "weightedAverage values = Some x \<Longrightarrow> x \<in> \<int>"
  by (auto simp: weightedAverage_def Math_round_def split: if_splits)

lemma processStationData_Inr:
  assumes "processStationData stations originalStations = Inr r"
  shows "stations \<noteq> []" and "length stations \<le> length originalStations"
    and "composite_aqi r = weightedAverage (map (\<lambda>s. Num (aqi s)) stations)"
    and "pollutant_value (composite_pollutants r) p =
           weightedAverage (map (\<lambda>s. chain_v (iaqi s p)) stations)"
proof -
  from assms have ok: "\<not> (stations = [] \<or> length originalStations < length stations)"
    by (auto simp: processStationData_def split: if_splits)
  then show "stations \<noteq> []" and "length stations \<le> length originalStations"
    by simp_all
  from assms ok have r: "r = projr (processStationData stations originalStations)"
    by simp
  show "composite_aqi r = weightedAverage (map (\<lambda>s. Num (aqi s)) stations)"
    unfolding r using ok by (simp add: processStationData_def)
  show "pollutant_value (composite_pollutants r) p =
           weightedAverage (map (\<lambda>s. chain_v (iaqi s p)) stations)"
    unfolding r using ok by (cases p) (simp_all add: processStationData_def)
qed

text \<open>
  C1, as the code has it. For every list of station payloads that \<open>processStationData\<close>
  accepts and every pollutant code, the aggregated value is absent (\<^verbatim>\<open>null\<close>) when no
  station reports the pollutant, and otherwise it is the arithmetic mean of the values
  of exactly the stations that report it, rounded to the nearest integer.
\<close>

theorem pollutants_rounded_mean_of_reported:
  assumes "processStationData stations originalStations = Inr r"
  shows "pollutant_value (composite_pollutants r) p =
           (if reported stations p = [] then None
            else Some (real_of_int (round (arithmetic_mean (reported stations p)))))"
  using processStationData_Inr(4) [OF assms, of p]
  by (simp add: weightedAverage_chain_v reported_def)

theorem pollutants_rounded_mean_of_reported_witness:
  "processStationData [example_feed 50 (Some 1), example_feed 150 None, example_feed 70 (Some 4)]
       [example_ranked 1 1, example_ranked 2 2, example_ranked 3 3] =
     Inr \<lparr> composite_aqi = Some 90,
           composite_pollutants =
             \<lparr> pm25 = Some 3, pm10 = None, o3 = None, no2 = None, so2 = None, co = None \<rparr>,
           composite_time = ''2024-01-01T00:00:00Z'',
           composite_stations =
             [\<lparr> name = ''Station'', entry_aqi = 50, entry_distance = Fin 1 \<rparr>,
              \<lparr> name = ''Station'', entry_aqi = 150, entry_distance = Fin 2 \<rparr>,
              \<lparr> name = ''Station'', entry_aqi = 70, entry_distance = Fin 3 \<rparr>] \<rparr>
   \<and> reported [example_feed 50 (Some 1), example_feed 150 None, example_feed 70 (Some 4)] PM25
       = [1, 4]
   \<and> reported [example_feed 50 (Some 1), example_feed 150 None, example_feed 70 (Some 4)] O3
       = []"
proof -
  let ?X = "[example_feed 50 (Some 1), example_feed 150 None, example_feed 70 (Some 4)]"
  let ?Y = "[example_ranked 1 1, example_ranked 2 2, example_ranked 3 3]"
  have run: "processStationData ?X ?Y =
     Inr \<lparr> composite_aqi = Some 90,
           composite_pollutants =
             \<lparr> pm25 = Some 3, pm10 = None, o3 = None, no2 = None, so2 = None, co = None \<rparr>,
           composite_time = ''2024-01-01T00:00:00Z'',
           composite_stations =
             [\<lparr> name = ''Station'', entry_aqi = 50, entry_distance = Fin 1 \<rparr>,
              \<lparr> name = ''Station'', entry_aqi = 150, entry_distance = Fin 2 \<rparr>,
              \<lparr> name = ''Station'', entry_aqi = 70, entry_distance = Fin 3 \<rparr>] \<rparr>"
    by (simp add: processStationData_def weightedAverage_def validValues_def Math_round_def
        example_feed_def example_ranked_def)
  have rep: "reported ?X PM25 = [1, 4]" "reported ?X O3 = []"
    by (simp_all add: reported_def map_filter_simps example_feed_def)
  from pollutants_rounded_mean_of_reported [OF run, of PM25]
       pollutants_rounded_mean_of_reported [OF run, of O3] run rep
  show ?thesis by simp
qed

text \<open>
  C1, as the specification states it, fails: two stations reporting PM2.5 values 1 and 2
  have the arithmetic mean 3/2, and the aggregated value is 2.
\<close>

theorem pollutants_exact_mean_counterexample:
  "processStationData [example_feed 50 (Some 1), example_feed 150 (Some 2)]
       [example_ranked 1 1, example_ranked 2 2] =
     Inr \<lparr> composite_aqi = Some 100,
           composite_pollutants =
             \<lparr> pm25 = Some 2, pm10 = None, o3 = None, no2 = None, so2 = None, co = None \<rparr>,
           composite_time = ''2024-01-01T00:00:00Z'',
           composite_stations =
             [\<lparr> name = ''Station'', entry_aqi = 50, entry_distance = Fin 1 \<rparr>,
              \<lparr> name = ''Station'', entry_aqi = 150, entry_distance = Fin 2 \<rparr>] \<rparr>
   \<and> arithmetic_mean
         (reported [example_feed 50 (Some 1), example_feed 150 (Some 2)] PM25) = 3 / 2
   \<and> Some (2::real) \<noteq> Some (3 / 2)"
  by (simp add: processStationData_def weightedAverage_def validValues_def Math_round_def
      example_feed_def example_ranked_def reported_def map_filter_simps arithmetic_mean_def)

text \<open>
  C4. For every non-empty list of station payloads (with a ranked station for each), the
  aggregation returns a reading whose \<open>aqi\<close> is the arithmetic mean of the stations'
  AQI values rounded to the nearest integer; two stations with AQIs 50 and 150 give 100.
\<close>

theorem composite_aqi_rounded_mean:
  "(stations \<noteq> [] \<and> length stations \<le> length originalStations \<longrightarrow>
      (\<exists>r. processStationData stations originalStations = Inr r \<and>
           composite_aqi r =
             Some (real_of_int (round (arithmetic_mean (map aqi stations))))))
   \<and> (aqi s1 = 50 \<and> aqi s2 = 150 \<longrightarrow>
      (\<exists>r. processStationData [s1, s2] [r1, r2] = Inr r \<and> composite_aqi r = Some 100))"
proof -
  have general: "\<exists>r. processStationData sts orig = Inr r \<and>
           composite_aqi r = Some (real_of_int (round (arithmetic_mean (map aqi sts))))"
    if "sts \<noteq> []" "length sts \<le> length orig" for sts orig
    using that by (simp add: processStationData_def weightedAverage_Num)
  have "\<exists>r. processStationData [s1, s2] [r1, r2] = Inr r \<and> composite_aqi r = Some 100"
    if "aqi s1 = 50" "aqi s2 = 150"
    using general [of "[s1, s2]" "[r1, r2]"] that
    by (simp add: arithmetic_mean_def)
  with general [of stations originalStations] show ?thesis by blast
qed

theorem composite_aqi_rounded_mean_witness:
  "[example_feed 40 None, example_feed 61 None] \<noteq> []
   \<and> length [example_feed 40 None, example_feed 61 None]
       \<le> length [example_ranked 1 (6 / 5), example_ranked 2 (17 / 5)]
   \<and> (\<exists>r. processStationData [example_feed 40 None, example_feed 61 None]
              [example_ranked 1 (6 / 5), example_ranked 2 (17 / 5)] = Inr r
          \<and> composite_aqi r = Some 51)
   \<and> aqi (example_feed 50 None) = 50 \<and> aqi (example_feed 150 None) = 150
   \<and> (\<exists>r. processStationData [example_feed 50 None, example_feed 150 None]
              [example_ranked 1 (6 / 5), example_ranked 2 (17 / 5)] = Inr r
          \<and> composite_aqi r = Some 100)"
proof -
  have m: "round (arithmetic_mean (map aqi [example_feed 40 None, example_feed 61 None])) = 51"
    by (simp add: arithmetic_mean_def example_feed_def round_def)
  have a: "aqi (example_feed 50 None) = 50" "aqi (example_feed 150 None) = 150"
    by (simp_all add: example_feed_def)
  from composite_aqi_rounded_mean
         [of "[example_feed 40 None, example_feed 61 None]"
             "[example_ranked 1 (6 / 5), example_ranked 2 (17 / 5)]"
             "example_feed 50 None" "example_feed 150 None"
             "example_ranked 1 (6 / 5)" "example_ranked 2 (17 / 5)"] m a
  show ?thesis by simp
qed

text \<open>
  C9. The presence filter of the averaging step drops \<^verbatim>\<open>undefined\<close> and nothing else:
  every number, zero included, is kept as often as it occurs. So when a station reports
  the value 0 for a pollutant, the aggregated value is present, the zero is one of the
  averaged values, and the divisor counts every station that has a reading of the
  pollutant.
\<close>

theorem zero_reading_is_averaged:
  "count_list (validValues values) (Num x) = count_list values (Num x)
   \<and> (processStationData stations originalStations = Inr r \<and> s \<in> set stations \<and>
        iaqi s p = Some 0 \<longrightarrow>
        Num 0 \<in> set (validValues (map (\<lambda>s. chain_v (iaqi s p)) stations)) \<and>
        0 \<in> set (reported stations p) \<and>
        length (reported stations p) = length (filter (\<lambda>s. iaqi s p \<noteq> None) stations) \<and>
        pollutant_value (composite_pollutants r) p =
          Some (real_of_int (round (sum_list (reported stations p)
                                     / real (length (filter (\<lambda>s. iaqi s p \<noteq> None) stations))))))"
proof -
  have c: "count_list (validValues values) (Num x) = count_list values (Num x)"
    by (induction "values") (simp_all add: validValues_def)
  have len: "length (List.map_filter f xs) = length (filter (\<lambda>s. f s \<noteq> None) xs)"
    for f :: "feed \<Rightarrow> real option" and xs
    by (induction xs) (auto simp: map_filter_simps split: option.splits)
  have mem: "y \<in> set (List.map_filter f xs) \<longleftrightarrow> (\<exists>s\<in>set xs. f s = Some y)"
    for f :: "feed \<Rightarrow> real option" and xs y
    by (induction xs) (auto simp: map_filter_simps split: option.splits)
  {
    assume run: "processStationData stations originalStations = Inr r"
      and s: "s \<in> set stations" and z: "iaqi s p = Some 0"
    from s z have in_rep: "0 \<in> set (reported stations p)"
      unfolding reported_def mem by blast
    then have ne: "reported stations p \<noteq> []" by auto
    have in_valid: "Num 0 \<in> set (validValues (map (\<lambda>s. chain_v (iaqi s p)) stations))"
      using in_rep by (simp add: validValues_chain_v reported_def)
    have l: "length (reported stations p) = length (filter (\<lambda>s. iaqi s p \<noteq> None) stations)"
      unfolding reported_def by (rule len)
    have "pollutant_value (composite_pollutants r) p =
          Some (real_of_int (round (arithmetic_mean (reported stations p))))"
      using processStationData_Inr(4) [OF run, of p] ne
      by (simp add: weightedAverage_chain_v reported_def)
    then have "pollutant_value (composite_pollutants r) p =
          Some (real_of_int (round (sum_list (reported stations p)
                                     / real (length (filter (\<lambda>s. iaqi s p \<noteq> None) stations)))))"
      by (simp add: arithmetic_mean_def l)
    note in_valid in_rep l this
  }
  with c show ?thesis by blast
qed

theorem zero_reading_is_averaged_witness:
  "processStationData [example_feed 50 (Some 0), example_feed 150 (Some 10)]
       [example_ranked 1 1, example_ranked 2 2] =
     Inr \<lparr> composite_aqi = Some 100,
           composite_pollutants =
             \<lparr> pm25 = Some 5, pm10 = None, o3 = None, no2 = None, so2 = None, co = None \<rparr>,
           composite_time = ''2024-01-01T00:00:00Z'',
           composite_stations =
             [\<lparr> name = ''Station'', entry_aqi = 50, entry_distance = Fin 1 \<rparr>,
              \<lparr> name = ''Station'', entry_aqi = 150, entry_distance = Fin 2 \<rparr>] \<rparr>
   \<and> example_feed 50 (Some 0) \<in> set [example_feed 50 (Some 0), example_feed 150 (Some 10)]
   \<and> iaqi (example_feed 50 (Some 0)) PM25 = Some 0
   \<and> reported [example_feed 50 (Some 0), example_feed 150 (Some 10)] PM25 = [0, 10]
   \<and> length (filter (\<lambda>s. iaqi s PM25 \<noteq> None)
        [example_feed 50 (Some 0), example_feed 150 (Some 10)]) = 2"
proof -
  let ?X = "[example_feed 50 (Some 0), example_feed 150 (Some 10)]"
  let ?Y = "[example_ranked 1 1, example_ranked 2 2]"
  let ?R = "\<lparr> composite_aqi = Some 100,
           composite_pollutants =
             \<lparr> pm25 = Some 5, pm10 = None, o3 = None, no2 = None, so2 = None, co = None \<rparr>,
           composite_time = ''2024-01-01T00:00:00Z'',
           composite_stations =
             [\<lparr> name = ''Station'', entry_aqi = 50, entry_distance = Fin 1 \<rparr>,
              \<lparr> name = ''Station'', entry_aqi = 150, entry_distance = Fin 2 \<rparr>] \<rparr>"
  have run: "processStationData ?X ?Y = Inr ?R"
    by (simp add: processStationData_def weightedAverage_def validValues_def Math_round_def
        example_feed_def example_ranked_def)
  have s: "example_feed 50 (Some 0) \<in> set ?X" by simp
  have z: "iaqi (example_feed 50 (Some 0)) PM25 = Some 0"
    by (simp add: example_feed_def)
  have rep: "reported ?X PM25 = [0, 10]"
    by (simp add: reported_def map_filter_simps example_feed_def)
  from zero_reading_is_averaged
         [of "[]" 0 ?X ?Y ?R "example_feed 50 (Some 0)" PM25] run s z rep
  show ?thesis by simp
qed

text \<open>
  C10. Every number the aggregator stores in the composite reading, the composite AQI and
  each pollutant average, is an integer.
\<close>

theorem aggregated_values_are_integers:
  assumes "processStationData stations originalStations = Inr r"
  shows "(\<forall>x. composite_aqi r = Some x \<longrightarrow> x \<in> \<int>)
       \<and> (\<forall>p x. pollutant_value (composite_pollutants r) p = Some x \<longrightarrow> x \<in> \<int>)"
  using processStationData_Inr(3) [OF assms] processStationData_Inr(4) [OF assms]
  by (auto dest: weightedAverage_integer)

theorem aggregated_values_are_integers_witness:
  "processStationData [example_feed 50 (Some 1), example_feed 151 (Some 2)]
       [example_ranked 1 1, example_ranked 2 2] =
     Inr \<lparr> composite_aqi = Some 101,
           composite_pollutants =
             \<lparr> pm25 = Some 2, pm10 = None, o3 = None, no2 = None, so2 = None, co = None \<rparr>,
           composite_time = ''2024-01-01T00:00:00Z'',
           composite_stations =
             [\<lparr> name = ''Station'', entry_aqi = 50, entry_distance = Fin 1 \<rparr>,
              \<lparr> name = ''Station'', entry_aqi = 151, entry_distance = Fin 2 \<rparr>] \<rparr>
   \<and> (101::real) \<in> \<int> \<and> (2::real) \<in> \<int>"
proof -
  let ?X = "[example_feed 50 (Some 1), example_feed 151 (Some 2)]"
  let ?Y = "[example_ranked 1 1, example_ranked 2 2]"
  let ?R = "\<lparr> composite_aqi = Some 101,
           composite_pollutants =
             \<lparr> pm25 = Some 2, pm10 = None, o3 = None, no2 = None, so2 = None, co = None \<rparr>,
           composite_time = ''2024-01-01T00:00:00Z'',
           composite_stations =
             [\<lparr> name = ''Station'', entry_aqi = 50, entry_distance = Fin 1 \<rparr>,
              \<lparr> name = ''Station'', entry_aqi = 151, entry_distance = Fin 2 \<rparr>] \<rparr>"
  have run: "processStationData ?X ?Y = Inr ?R"
    by (simp add: processStationData_def weightedAverage_def validValues_def Math_round_def
        example_feed_def example_ranked_def)
  from aggregated_values_are_integers [OF run]
  have "(101::real) \<in> \<int>" and "(2::real) \<in> \<int>"
    using pollutant_value.simps(1) [of "composite_pollutants ?R"] by auto
  with run show ?thesis by simp
qed

section \<open>Properties of the distance calculator\<close>

lemma haversine_a_Fin: "\<exists>a. haversine_a fp lat1 lon1 lat2 lon2 = Fin a"
  by (simp add: haversine_a_def Let_def)

text \<open>When rounding and the sine are odd functions, as they are in IEEE arithmetic and in
  the usual libraries, both orders of the arguments compute the same value: the same
  number, or \<open>NaN\<close> both times.\<close>

lemma half_angle_flip:
  assumes "\<And>v. rnd fp (- v) = - rnd fp v"
  shows "rnd fp (rnd fp (rnd fp (rnd fp (x - y) * p) / 180) / 2) =
         - rnd fp (rnd fp (rnd fp (rnd fp (y - x) * p) / 180) / 2)"
proof -
  have "rnd fp (x - y) = - rnd fp (y - x)"
    using assms [of "y - x"] by simp
  then show ?thesis by (simp add: assms)
qed

lemma haversine_a_sym:
  assumes odd_rnd: "\<And>v. rnd fp (- v) = - rnd fp v"
      and odd_sin: "\<And>v. Math_sin fp (- v) = - Math_sin fp v"
  shows "haversine_a fp lat1 lon1 lat2 lon2 = haversine_a fp lat2 lon2 lat1 lon1"
proof -
  define U where "U = rnd fp (rnd fp (rnd fp (rnd fp (lat2 - lat1) * Math_PI fp) / 180) / 2)"
  define W where "W = rnd fp (rnd fp (rnd fp (rnd fp (lon2 - lon1) * Math_PI fp) / 180) / 2)"
  define C1 where "C1 = Math_cos fp (rnd fp (rnd fp (lat1 * Math_PI fp) / 180))"
  define C2 where "C2 = Math_cos fp (rnd fp (rnd fp (lat2 * Math_PI fp) / 180))"
  have fU: "rnd fp (rnd fp (rnd fp (rnd fp (lat1 - lat2) * Math_PI fp) / 180) / 2) = - U"
    unfolding U_def by (rule half_angle_flip [OF odd_rnd])
  have fW: "rnd fp (rnd fp (rnd fp (rnd fp (lon1 - lon2) * Math_PI fp) / 180) / 2) = - W"
    unfolding W_def by (rule half_angle_flip [OF odd_rnd])
  have fwd: "haversine_a fp lat1 lon1 lat2 lon2 =
      Fin (rnd fp (rnd fp (Math_sin fp U * Math_sin fp U) +
                   rnd fp (rnd fp (rnd fp (C1 * C2) * Math_sin fp W) * Math_sin fp W)))"
    unfolding haversine_a_def Let_def U_def W_def C1_def C2_def by simp
  have bwd: "haversine_a fp lat2 lon2 lat1 lon1 =
      Fin (rnd fp (rnd fp (Math_sin fp (- U) * Math_sin fp (- U)) +
                   rnd fp (rnd fp (rnd fp (C2 * C1) * Math_sin fp (- W)) * Math_sin fp (- W))))"
    unfolding haversine_a_def Let_def by (simp add: fU fW C1_def C2_def)
  have cc: "C2 * C1 = C1 * C2" by (rule mult.commute)
  show ?thesis
    unfolding fwd bwd odd_sin cc
    by (simp add: odd_rnd)
qed

lemma calculateDistance_sym:
  assumes "\<And>v. rnd fp (- v) = - rnd fp v"
      and "\<And>v. Math_sin fp (- v) = - Math_sin fp v"
  shows "calculateDistance fp lat1 lon1 lat2 lon2 = calculateDistance fp lat2 lon2 lat1 lon1"
  unfolding calculateDistance_def haversine_a_sym [OF assms, of lat1 lon1 lat2 lon2] by (rule refl)

text \<open>The distance from a coordinate to itself is the number 0, when rounding leaves 0 and
  1 as they are, the sine of 0 is 0 and the angle of the point \<open>(1, 0)\<close> is 0.\<close>

lemma calculateDistance_self:
  assumes "rnd fp 0 = 0" and "rnd fp 1 = 1" and "Math_sin fp 0 = 0" and "Math_atan2 fp 0 1 = 0"
  shows "calculateDistance fp lat1 lon1 lat1 lon1 = Fin 0"
  by (simp add: calculateDistance_def haversine_a_def Let_def assms)


text \<open>In the exact arithmetic the value of \<^verbatim>\<open>a\<close> lies in \<open>[0, 1]\<close> for all coordinates,
  so there the distance is always a number.\<close>

lemma haversine_a_exact:
  "haversine_a exact lat1 lon1 lat2 lon2 =
     Fin (sin ((lat2 - lat1) * pi / 180 / 2) * sin ((lat2 - lat1) * pi / 180 / 2) +
          cos (lat1 * pi / 180) * cos (lat2 * pi / 180) *
          sin ((lon2 - lon1) * pi / 180 / 2) * sin ((lon2 - lon1) * pi / 180 / 2))"
  by (simp add: haversine_a_def Let_def exact_def)

lemma haversine_a_exact_range:
  assumes "haversine_a exact lat1 lon1 lat2 lon2 = Fin a"
  shows "0 \<le> a \<and> a \<le> 1"
proof -
  define A where "A = lat1 * pi / 180"
  define B where "B = lat2 * pi / 180"
  define U where "U = (lat2 - lat1) * pi / 180 / 2"
  define W where "W = (lon2 - lon1) * pi / 180 / 2"
  define t where "t = cos (2 * W)"
  have a: "a = sin U * sin U + cos A * cos B * sin W * sin W"
    using assms unfolding haversine_a_exact U_def W_def A_def B_def by simp
  have U2: "2 * U = B - A"
    by (simp add: U_def A_def B_def algebra_simps diff_divide_distrib)
  have sU: "sin U * sin U = (1 - cos (B - A)) / 2"
    using cos_double_sin [of U] by (simp add: U2 power2_eq_square)
  have sW: "sin W * sin W = (1 - t) / 2"
    using cos_double_sin [of W] by (simp add: t_def power2_eq_square)
  have t: "- 1 \<le> t" "t \<le> 1"
    by (simp_all add: t_def)
  have val: "a = (1 - (sin A * sin B + cos A * cos B * t)) / 2"
  proof -
    have "sin U * sin U + cos A * cos B * sin W * sin W
          = sin U * sin U + cos A * cos B * (sin W * sin W)"
      by (simp add: mult.assoc)
    also have "\<dots> = (1 - cos (B - A)) / 2 + cos A * cos B * ((1 - t) / 2)"
      by (simp only: sU sW)
    also have "\<dots> = (1 - (sin A * sin B + cos A * cos B * t)) / 2"
      by (simp add: cos_diff field_simps)
    finally show ?thesis using a by simp
  qed
  have one: "sin A * sin A + cos A * cos A = 1" "sin B * sin B + cos B * cos B = 1"
    using sin_cos_squared_add [of A] sin_cos_squared_add [of B]
    by (simp_all add: power2_eq_square)
  have "\<bar>t\<bar> \<le> 1" using t by (simp add: abs_le_iff)
  then have "\<bar>t\<bar> * \<bar>t\<bar> \<le> 1 * 1"
    by (intro mult_mono) simp_all
  then have tt: "t * t \<le> 1" by simp
  have cbt: "(cos B * t) * (cos B * t) \<le> cos B * cos B"
  proof -
    have "(cos B * t) * (cos B * t) = (cos B * cos B) * (t * t)" by (simp add: algebra_simps)
    also have "\<dots> \<le> (cos B * cos B) * 1"
      by (rule mult_left_mono [OF tt]) simp
    finally show ?thesis by simp
  qed
  have up1: "2 * (sin A * sin B) \<le> sin A * sin A + sin B * sin B"
    using zero_le_square [of "sin A - sin B"] by (simp add: algebra_simps)
  have up2: "2 * (cos A * (cos B * t)) \<le> cos A * cos A + (cos B * t) * (cos B * t)"
    using zero_le_square [of "cos A - cos B * t"] by (simp add: algebra_simps)
  have lo1: "- (sin A * sin A + sin B * sin B) \<le> 2 * (sin A * sin B)"
    using zero_le_square [of "sin A + sin B"] by (simp add: algebra_simps)
  have lo2: "- (cos A * cos A + (cos B * t) * (cos B * t)) \<le> 2 * (cos A * (cos B * t))"
    using zero_le_square [of "cos A + cos B * t"] by (simp add: algebra_simps)
  have "sin A * sin B + cos A * cos B * t \<le> 1"
    using up1 up2 cbt one by (simp add: mult.assoc)
  moreover have "- 1 \<le> sin A * sin B + cos A * cos B * t"
    using lo1 lo2 cbt one by (simp add: mult.assoc)
  ultimately show ?thesis unfolding val by simp
qed

lemma calculateDistance_exact_number: "calculateDistance exact lat1 lon1 lat2 lon2 \<noteq> NaN"
proof -
  obtain a where a: "haversine_a exact lat1 lon1 lat2 lon2 = Fin a"
    using haversine_a_Fin by blast
  from haversine_a_exact_range [OF a] show ?thesis
    unfolding calculateDistance_def Let_def a by (simp add: exact_def)
qed

lemma calculateDistance_exact_self: "calculateDistance exact lat1 lon1 lat1 lon1 = Fin 0"
  by (rule calculateDistance_self) (simp_all add: exact_def exact_atan2_def)

lemma calculateDistance_exact_antimeridian: "calculateDistance exact 0 0 0 180 = Fin (6371 * pi)"
  by (simp add: calculateDistance_def haversine_a_def Let_def exact_def exact_atan2_def)





section \<open>Properties of the station selection\<close>

lemma prefix_filter_take: "prefix (filter P (take n ys)) (filter P ys)"
proof -
  have "filter P ys = filter P (take n ys) @ filter P (drop n ys)"
    by (metis append_take_drop_id filter_append)
  then show ?thesis by (simp add: prefix_def)
qed

text \<open>When the subtraction of two numbers has the sign of their difference, as the
  subtraction of doubles has, and no distance is \<open>NaN\<close>, the sort with the comparator
  \<^verbatim>\<open>(a, b) => a.distance - b.distance\<close> is the stable sort by the distance.\<close>

lemma insert_sorted_insort_key:
  assumes sign: "\<And>v. (0 < rnd fp v) = (0 < v)"
      and x: "distance x \<noteq> NaN"
      and ys: "\<forall>y\<in>set ys. distance y \<noteq> NaN"
  shows "insert_sorted (\<lambda>a b. js_sub fp (distance a) (distance b)) x ys =
         insort_key distance_value x ys"
  using ys
proof (induction ys)
  case Nil
  show ?case by simp
next
  case (Cons y ys)
  from x obtain dx where dx: "distance x = Fin dx" by (cases "distance x") auto
  from Cons.prems obtain dy where dy: "distance y = Fin dy" by (cases "distance y") auto
  have "positive (js_sub fp (distance x) (distance y)) = (\<not> dx \<le> dy)"
    by (simp add: dx dy sign not_le)
  with Cons show ?case by (simp add: distance_value_def dx dy)
qed

lemma Array_sort_sort_key:
  assumes sign: "\<And>v. (0 < rnd fp v) = (0 < v)"
      and xs: "\<forall>x\<in>set xs. distance x \<noteq> NaN"
  shows "Array_sort (\<lambda>a b. js_sub fp (distance a) (distance b)) xs = sort_key distance_value xs"
  using xs
proof (induction xs)
  case Nil
  show ?case by (simp add: Array_sort_def)
next
  case (Cons x xs)
  then have IH: "Array_sort (\<lambda>a b. js_sub fp (distance a) (distance b)) xs =
                 sort_key distance_value xs"
    by simp
  have rest: "\<forall>y\<in>set (sort_key distance_value xs). distance y \<noteq> NaN"
    using Cons.prems by simp
  have "Array_sort (\<lambda>a b. js_sub fp (distance a) (distance b)) (x # xs) =
        insert_sorted (\<lambda>a b. js_sub fp (distance a) (distance b)) x (sort_key distance_value xs)"
    using IH by (simp add: Array_sort_def)
  also have "\<dots> = insort_key distance_value x (sort_key distance_value xs)"
    using Cons.prems by (intro insert_sorted_insort_key [OF sign _ rest]) simp
  finally show ?case by simp
qed

text \<open>
  The selection on candidates whose distances are all numbers: it is the list of the
  candidates, stably sorted by distance and cut after 3 entries. So it has \<open>min 3 n\<close>
  entries in non-decreasing order of distance, the candidates it leaves out are no nearer
  than the ones it takes, and for every distance \<open>d\<close> the selected stations at distance
  \<open>d\<close> are, in the same order, the first candidates at distance \<open>d\<close>.
\<close>

lemma nearestStations_numbers:
  assumes sign: "\<And>v. (0 < rnd fp v) = (0 < v)"
      and numbers: "\<forall>c\<in>set candidates.
             calculateDistance fp (value_lat location) (lng location) (lat c) (lon c) \<noteq> NaN"
  shows "nearestStations fp location candidates =
           take 3 (sort_key distance_value (map (attach_distance fp location) candidates))"
    and "length (nearestStations fp location candidates) = min 3 (length candidates)"
    and "sorted (map distance_value (nearestStations fp location candidates))"
    and "\<exists>rest. mset (nearestStations fp location candidates @ rest) =
                  mset (map (attach_distance fp location) candidates) \<and>
                (\<forall>x\<in>set (nearestStations fp location candidates). \<forall>y\<in>set rest.
                    distance_value x \<le> distance_value y)"
    and "prefix (filter (\<lambda>s. distance_value s = d) (nearestStations fp location candidates))
                (filter (\<lambda>s. distance_value s = d) (map (attach_distance fp location) candidates))"
proof -
  let ?xs = "map (attach_distance fp location) candidates"
  let ?sorted = "sort_key distance_value ?xs"
  have "\<forall>x\<in>set ?xs. distance x \<noteq> NaN"
    using numbers by (simp add: attach_distance_def)
  from Array_sort_sort_key [OF sign this]
  show eq: "nearestStations fp location candidates = take 3 ?sorted"
    by (simp add: nearestStations_def)
  show "length (nearestStations fp location candidates) = min 3 (length candidates)"
    unfolding eq by (simp add: min.commute)
  have "sorted (take 3 (map distance_value ?sorted))"
    by (rule sorted_wrt_take) simp
  then show "sorted (map distance_value (nearestStations fp location candidates))"
    unfolding eq by (simp add: take_map)
  have split: "take 3 ?sorted @ drop 3 ?sorted = ?sorted"
    by (rule append_take_drop_id)
  have "sorted (map distance_value (take 3 ?sorted) @ map distance_value (drop 3 ?sorted))"
    unfolding map_append [symmetric] split by simp
  then have "\<forall>v\<in>set (map distance_value (take 3 ?sorted)).
               \<forall>w\<in>set (map distance_value (drop 3 ?sorted)). v \<le> w"
    unfolding sorted_append by blast
  then have far: "\<forall>x\<in>set (take 3 ?sorted). \<forall>y\<in>set (drop 3 ?sorted).
                    distance_value x \<le> distance_value y"
    unfolding set_map by blast
  have "mset (take 3 ?sorted @ drop 3 ?sorted) = mset ?xs"
    unfolding split by simp
  with far show "\<exists>rest. mset (nearestStations fp location candidates @ rest) = mset ?xs \<and>
                (\<forall>x\<in>set (nearestStations fp location candidates). \<forall>y\<in>set rest.
                    distance_value x \<le> distance_value y)"
    unfolding eq by blast
  have "prefix (filter (\<lambda>s. distance_value s = d) (take 3 ?sorted))
               (filter (\<lambda>s. distance_value s = d) ?sorted)"
    by (rule prefix_filter_take)
  then show "prefix (filter (\<lambda>s. distance_value s = d) (nearestStations fp location candidates))
                    (filter (\<lambda>s. distance_value s = d) ?xs)"
    unfolding eq by (simp add: sort_key_stable)
qed

text \<open>An example in the exact arithmetic: of five candidates, three at the origin and two
  on the antimeridian, the three at the origin are selected, in their input order.\<close>

lemma nearestStations_example:
  "map uid (nearestStations exact origin
     [example_station 1 0 180, example_station 2 0 0, example_station 3 0 0,
      example_station 4 0 180, example_station 5 0 0]) = [2, 3, 5]"
proof -
  have far: "distance (attach_distance exact origin (example_station u 0 180)) = Fin (6371 * pi)"
    for u
    by (simp add: attach_distance_def origin_def example_station_def
        calculateDistance_exact_antimeridian)
  have near: "distance (attach_distance exact origin (example_station u 0 0)) = Fin 0" for u
    by (simp add: attach_distance_def origin_def example_station_def calculateDistance_exact_self)
  have id: "uid (attach_distance exact origin (example_station u la lo)) = u" for u la lo
    by (simp add: attach_distance_def example_station_def)
  have r: "rnd exact v = v" for v by (simp add: exact_def)
  have "\<not> pi \<le> 0" using pi_gt_zero by linarith
  then show ?thesis
    by (simp add: nearestStations_def Array_sort_def far near id r)
qed


section \<open>Properties of the fetch of a composite reading\<close>

lemma Promise_all_rejects: "Inl e \<in> set rs \<Longrightarrow> \<exists>e'. Promise_all rs = Inl e' \<and> Inl e' \<in> set rs"
proof (induction rs)
  case Nil
  then show ?case by simp
next
  case (Cons r rs)
  show ?case
  proof (cases r)
    case (Inl e0)
    then show ?thesis by auto
  next
    case (Inr x)
    with Cons.prems have "Inl e \<in> set rs" by auto
    from Cons.IH [OF this] obtain e' where "Promise_all rs = Inl e'" "Inl e' \<in> set rs"
      by blast
    with Inr show ?thesis by auto
  qed
qed

lemma Promise_all_resolves: "Promise_all rs = Inr xs \<longleftrightarrow> rs = map Inr xs"
proof (induction rs arbitrary: xs)
  case Nil
  show ?case by auto
next
  case (Cons r rs)
  show ?case
  proof (cases r)
    case (Inl e0)
    then show ?thesis by auto
  next
    case (Inr x)
    show ?thesis
    proof (cases "Promise_all rs")
      case (Inl e')
      with Cons.IH have "\<And>ys. rs \<noteq> map Inr ys" by auto
      with Inl \<open>r = Inr x\<close> show ?thesis by (cases xs) auto
    next
      case (Inr ys)
      from Cons.IH [of ys] Inr have "rs = map Inr ys" by simp
      with Inr \<open>r = Inr x\<close> show ?thesis by (cases xs) auto
    qed
  qed
qed

text \<open>
  C3. When the bounds request gives candidates and the feed request of one of the
  selected stations fails, \<open>fetchAQI\<close> leaves the composite reading of the state (and the
  forecast data) as it was, and sets the error of the state to the message of a failed
  feed request: nothing is aggregated from the stations whose requests succeeded.
\<close>

theorem detail_fetch_failure_fails_aggregation:
  assumes "bounds net location = Inr (Some candidates)"
      and "s \<in> set (nearestStations fp location candidates)"
      and "feed_of net (uid s) = Inl e"
  shows "aqi_state (fetchAQI fp net location st) = aqi_state st
       \<and> historicalData (fetchAQI fp net location st) = historicalData st
       \<and> loading (fetchAQI fp net location st) = False
       \<and> (\<exists>e'. Inl e' \<in> set (map (\<lambda>s. feed_of net (uid s)) (nearestStations fp location candidates))
              \<and> error (fetchAQI fp net location st) = Some (error_message e'))"
proof -
  let ?rs = "map (\<lambda>s. feed_of net (uid s)) (nearestStations fp location candidates)"
  from assms(2) have ne: "candidates \<noteq> []"
    by (auto simp: nearestStations_def Array_sort_def)
  from assms(2,3) have "Inl e \<in> set ?rs"
    by (metis (mono_tags, lifting) image_eqI list.set_map)
  from Promise_all_rejects [OF this] obtain e'
    where rej: "Promise_all ?rs = Inl e'" and mem: "Inl e' \<in> set ?rs"
    by blast
  have run: "fetchAQI fp net location st =
      st\<lparr>loading := False, error := Some (error_message e')\<rparr>"
    using assms(1) ne rej by (simp add: fetchAQI_def Let_def)
  show ?thesis unfolding run using mem by auto
qed

theorem detail_fetch_failure_fails_aggregation_witness:
  "bounds failing_network origin = Inr (Some [example_station 8 0 0, example_station 7 0 0])
   \<and> attach_distance exact origin (example_station 7 0 0)
       \<in> set (nearestStations exact origin [example_station 8 0 0, example_station 7 0 0])
   \<and> feed_of failing_network (uid (attach_distance exact origin (example_station 7 0 0)))
       = Inl (RequestFailed (Some ''Over quota''))
   \<and> feed_of failing_network (uid (attach_distance exact origin (example_station 8 0 0)))
       = Inr (example_feed 50 (Some 12))
   \<and> fetchAQI exact failing_network origin example_state
       = example_state\<lparr>error := Some ''Over quota''\<rparr>
   \<and> aqi_state (fetchAQI exact failing_network origin example_state) = aqi_state example_state"
proof -
  have near: "distance (attach_distance exact origin (example_station u 0 0)) = Fin 0" for u
    by (simp add: attach_distance_def origin_def example_station_def calculateDistance_exact_self)
  have id: "uid (attach_distance exact origin (example_station u la lo)) = u" for u la lo
    by (simp add: attach_distance_def example_station_def)
  have r: "rnd exact v = v" for v by (simp add: exact_def)
  have sel: "nearestStations exact origin [example_station 8 0 0, example_station 7 0 0] =
      [attach_distance exact origin (example_station 8 0 0),
       attach_distance exact origin (example_station 7 0 0)]"
    by (simp add: nearestStations_def Array_sort_def near r)
  have b: "bounds failing_network origin =
      Inr (Some [example_station 8 0 0, example_station 7 0 0])"
    by (simp add: failing_network_def)
  have s: "attach_distance exact origin (example_station 7 0 0)
       \<in> set (nearestStations exact origin [example_station 8 0 0, example_station 7 0 0])"
    by (simp add: sel)
  have f: "feed_of failing_network (uid (attach_distance exact origin (example_station 7 0 0)))
       = Inl (RequestFailed (Some ''Over quota''))"
    by (simp add: failing_network_def id)
  have g: "feed_of failing_network (uid (attach_distance exact origin (example_station 8 0 0)))
       = Inr (example_feed 50 (Some 12))"
    by (simp add: failing_network_def id)
  have run: "fetchAQI exact failing_network origin example_state
       = example_state\<lparr>error := Some ''Over quota''\<rparr>"
    by (simp add: fetchAQI_def Let_def b sel f g example_state_def error_message_def)
  from detail_fetch_failure_fails_aggregation [OF b s f, of example_state] b s f g run
  show ?thesis by simp
qed

text \<open>For contrast: when every request of the aggregation succeeds, the composite reading
  of the state is replaced (and a failure of the forecast request is swallowed).\<close>

lemma fetchAQI_success_example:
  "fetchAQI exact working_network origin example_state =
     example_state\<lparr>aqi_state := Some
       \<lparr> composite_aqi = Some 50,
         composite_pollutants =
           \<lparr> pm25 = Some 12, pm10 = None, o3 = None, no2 = None, so2 = None, co = None \<rparr>,
         composite_time = ''2024-01-01T00:00:00Z'',
         composite_stations =
           [\<lparr> name = ''Station'', entry_aqi = 50, entry_distance = Fin 0 \<rparr>] \<rparr>\<rparr>"
proof -
  have near: "distance (attach_distance exact origin (example_station u 0 0)) = Fin 0" for u
    by (simp add: attach_distance_def origin_def example_station_def calculateDistance_exact_self)
  have id: "uid (attach_distance exact origin (example_station u la lo)) = u" for u la lo
    by (simp add: attach_distance_def example_station_def)
  show ?thesis
    by (simp add: fetchAQI_def nearestStations_def Array_sort_def working_network_def
        example_state_def processStationData_def weightedAverage_def validValues_def
        Math_round_def example_feed_def near id)
qed

section \<open>Properties of the geocoder\<close>

text \<open>
  C5, as the code has it. For the empty query the search returns the empty sequence and
  sends no request.
\<close>

theorem loadOptions_empty_query:
  "loadOptions parseFloat encodeURIComponent axios_get [] = (Inr [], [])"
  by (simp add: loadOptions_def)

text \<open>
  C5, as the specification states it, fails: for the query of one space a request is
  sent to the search service, and the result is not the empty sequence.
\<close>

theorem loadOptions_whitespace_counterexample:
  "loadOptions (\<lambda>s. 0) (\<lambda>q. Some ''%20'') (\<lambda>url. Inr (Items [])) '' '' =
     (Inr [\<lparr> option_label = ''No locations found'', option_value = None, isDisabled = True \<rparr>],
      [''https://nominatim.openstreetmap.org/search?format=json&q=%20''])
   \<and> fst (loadOptions (\<lambda>s. 0) (\<lambda>q. Some ''%20'') (\<lambda>url. Inr (Items [])) '' '') \<noteq> Inr []
   \<and> snd (loadOptions (\<lambda>s. 0) (\<lambda>q. Some ''%20'') (\<lambda>url. Inr (Items [])) '' '') \<noteq> []"
  by (simp add: loadOptions_def loadOptions_body_def search_url_def)

text \<open>
  C7. The search always returns a sequence, never an error. For a non-empty query, a
  response with no data or with zero matches gives the single disabled entry
  ``No locations found''; a query that cannot be encoded, a request that throws, or a
  response that is not an array, gives the single disabled entry
  ``Error loading locations''.
\<close>

theorem loadOptions_never_raises:
  "(\<exists>options. fst (loadOptions parseFloat encodeURIComponent axios_get inputValue) = Inr options)
   \<and> (inputValue \<noteq> [] \<and> encodeURIComponent inputValue = Some q \<and>
        (axios_get (search_url q) = Inr (Items []) \<or> axios_get (search_url q) = Inr Falsy) \<longrightarrow>
        fst (loadOptions parseFloat encodeURIComponent axios_get inputValue) =
          Inr [\<lparr> option_label = ''No locations found'', option_value = None,
                 isDisabled = True \<rparr>])
   \<and> (inputValue \<noteq> [] \<and>
        (encodeURIComponent inputValue = None \<or>
         encodeURIComponent inputValue = Some q \<and>
           (axios_get (search_url q) = Inl err \<or> axios_get (search_url q) = Inr NotAnArray)) \<longrightarrow>
        fst (loadOptions parseFloat encodeURIComponent axios_get inputValue) =
          Inr [\<lparr> option_label = ''Error loading locations'', option_value = None,
                 isDisabled = True \<rparr>])"
proof -
  have total: "\<exists>options.
      fst (loadOptions parseFloat encodeURIComponent axios_get inputValue) = Inr options"
    by (simp add: loadOptions_def split: prod.splits sum.splits)
  have none: "fst (loadOptions parseFloat encodeURIComponent axios_get inputValue) =
          Inr [\<lparr> option_label = ''No locations found'', option_value = None,
                 isDisabled = True \<rparr>]"
    if "inputValue \<noteq> []" "encodeURIComponent inputValue = Some q"
      "axios_get (search_url q) = Inr (Items []) \<or> axios_get (search_url q) = Inr Falsy"
    using that by (auto simp: loadOptions_def loadOptions_body_def)
  have failed: "fst (loadOptions parseFloat encodeURIComponent axios_get inputValue) =
          Inr [\<lparr> option_label = ''Error loading locations'', option_value = None,
                 isDisabled = True \<rparr>]"
    if "inputValue \<noteq> []"
      "encodeURIComponent inputValue = None \<or>
       encodeURIComponent inputValue = Some q \<and>
         (axios_get (search_url q) = Inl err \<or> axios_get (search_url q) = Inr NotAnArray)"
    using that by (auto simp: loadOptions_def loadOptions_body_def)
  from total none failed show ?thesis by blast
qed

theorem loadOptions_never_raises_witness:
  "''Pune'' \<noteq> []
   \<and> fst (loadOptions (\<lambda>s. 0) Some (\<lambda>url. Inr (Items [])) ''Pune'') =
       Inr [\<lparr> option_label = ''No locations found'', option_value = None, isDisabled = True \<rparr>]
   \<and> fst (loadOptions (\<lambda>s. 0) Some (\<lambda>url. Inl (RequestFailed None)) ''Pune'') =
       Inr [\<lparr> option_label = ''Error loading locations'', option_value = None,
              isDisabled = True \<rparr>]
   \<and> fst (loadOptions (\<lambda>s. 0) (\<lambda>q. None) (\<lambda>url. Inr (Items [example_geo_item])) ''Pune'') =
       Inr [\<lparr> option_label = ''Error loading locations'', option_value = None,
              isDisabled = True \<rparr>]
   \<and> loadOptions (\<lambda>s. 0) Some (\<lambda>url. Inr (Items [example_geo_item])) ''Pune'' =
       (Inr [\<lparr> option_label = ''Pune'', option_value = Some \<lparr> value_lat = 0, lng = 0 \<rparr>,
               isDisabled = False \<rparr>],
        [''https://nominatim.openstreetmap.org/search?format=json&q=Pune''])"
proof -
  have q: "''Pune'' \<noteq> []" by simp
  have found: "loadOptions (\<lambda>s. 0) Some (\<lambda>url. Inr (Items [example_geo_item])) ''Pune'' =
       (Inr [\<lparr> option_label = ''Pune'', option_value = Some \<lparr> value_lat = 0, lng = 0 \<rparr>,
               isDisabled = False \<rparr>],
        [''https://nominatim.openstreetmap.org/search?format=json&q=Pune''])"
    by (simp add: loadOptions_def loadOptions_body_def example_geo_item_def search_url_def)
  from loadOptions_never_raises
         [of "\<lambda>s. 0" Some "\<lambda>url. Inr (Items [])" "''Pune''" "''Pune''" "RequestFailed None"]
       loadOptions_never_raises
         [of "\<lambda>s. 0" Some "\<lambda>url. Inl (RequestFailed None)" "''Pune''" "''Pune''"
             "RequestFailed None"]
       loadOptions_never_raises
         [of "\<lambda>s. 0" "\<lambda>q. None" "\<lambda>url. Inr (Items [example_geo_item])" "''Pune''" "''Pune''"
             "RequestFailed None"]
       q found
  show ?thesis by simp
qed

section \<open>Properties of the forecast formatter\<close>

text \<open>Whenever the formatter produces a chart, its labels are the formatted days of the
  first key of \<^verbatim>\<open>forecast.daily\<close>, whatever that key is.\<close>

lemma prepareChartData_labels:
  assumes "prepareChartData toLocaleDateString (Some payload) = Inr (Some chart)"
  shows "\<exists>f key0 xs rest. forecast payload = Some f \<and> daily f = Some ((key0, xs) # rest) \<and>
           labels chart = map (\<lambda>e. toLocaleDateString (day e)) xs"
  using assms
  by (auto simp: prepareChartData_def Let_def
      split: option.splits if_splits list.splits prod.splits)

text \<open>
  C6 at a payload whose first key is \<^verbatim>\<open>uvi\<close>, followed by \<^verbatim>\<open>pm25\<close> with one day of
  data: the first recognised pollutant that has data is \<^verbatim>\<open>pm25\<close>, the chart has the one
  dataset PM2.5, and its label is the day of the \<^verbatim>\<open>uvi\<close> entry, not of the \<^verbatim>\<open>pm25\<close>
  entry.
\<close>

theorem prepareChartData_labels_from_first_key:
  "prepareChartData (\<lambda>d. d) (Some example_forecast_feed) =
     Inr (Some \<lparr> labels = [''2024-01-01''],
                 datasets = [\<lparr> label = ''PM2.5'', data = [10],
                               borderColor = ''rgb(75, 192, 192)'',
                               backgroundColor = ''rgba(75, 192, 192, 0.2)'',
                               tension = 1 / 10 \<rparr>] \<rparr>)
   \<and> first_with_data example_daily = Some ''pm25''
   \<and> first_key_with_data example_daily = Some ''pm25''
   \<and> map_of example_daily ''pm25'' = Some [\<lparr> day = ''2024-01-02'', avg = 10 \<rparr>]"
  by (simp add: prepareChartData_def push_dataset_def example_forecast_feed_def
      example_daily_def first_with_data_def first_key_with_data_def recognized_def
      has_data_def)

text \<open>The same at a payload whose first key is \<^verbatim>\<open>o3\<close> with an empty series: the chart
  has the dataset PM2.5 with one value and no label at all.\<close>

lemma prepareChartData_empty_first_key:
  "prepareChartData (\<lambda>d. d)
       (Some (example_forecast_feed\<lparr>forecast := Some \<lparr> daily = Some example_daily_empty_first \<rparr>\<rparr>)) =
     Inr (Some \<lparr> labels = [],
                 datasets = [\<lparr> label = ''PM2.5'', data = [10],
                               borderColor = ''rgb(75, 192, 192)'',
                               backgroundColor = ''rgba(75, 192, 192, 0.2)'',
                               tension = 1 / 10 \<rparr>] \<rparr>)
   \<and> first_with_data example_daily_empty_first = Some ''pm25''
   \<and> first_key_with_data example_daily_empty_first = Some ''pm25''"
  by (simp add: prepareChartData_def push_dataset_def example_forecast_feed_def
      example_daily_empty_first_def first_with_data_def first_key_with_data_def recognized_def
      has_data_def)

end
